theory Spec2Isabelle
  imports Complex_Main
begin

section \<open>Patch datasets over point clouds: a model of \<open>datasets/base_patch_dataset.py\<close>\<close>

text \<open>
  Coordinates are torch floats in the source; a finite float is a \<^typ>\<open>real\<close>, and comparisons
  of floats are the comparisons of the reals. The float operations of the constructor of the
  grid (two subtractions and a division per axis) are parameters of the model, so that what
  is proved of the constructor holds however these operations round, overflow or underflow.
  The bounds of a block are written with the operations of the reals. Python integers are
  \<^typ>\<open>int\<close>; positions in a tensor are \<^typ>\<open>nat\<close>.
\<close>

datatype error =
    AssertionError
  | ZeroDivisionError
  | OverflowError
  | ValueError
  | IndexError

subsection \<open>\<open>BaseMultiCloudPatchDataset\<close>\<close>

text \<open>
  What the aggregator uses of a patch dataset: \<open>len(pds)\<close>, which Python guarantees to be a
  non-negative integer, and \<open>pds[j]\<close>, which returns a patch or raises.
\<close>

record 'a patch_dataset =
  pd_len :: nat
  pd_getitem :: "int \<Rightarrow> error + 'a"

text \<open>\<open>__len__\<close>: \<open>sum(len(pd) for pd in self.patch_datasets)\<close>, a left fold from 0.\<close>

definition multi_len :: "'a patch_dataset list \<Rightarrow> int" where
  "multi_len patch_datasets = foldl (\<lambda>acc pd. acc + int (pd_len pd)) 0 patch_datasets"

text \<open>
  \<open>__getitem__\<close>: the loop over the datasets with the running offset \<open>i\<close>. The result is
  \<open>Inl e\<close> when the owning dataset raises \<open>e\<close>, \<open>Inr (Some v)\<close> when the loop returns \<open>v\<close>, and
  \<open>Inr None\<close> when the loop ends without a \<open>return\<close>: the call then returns Python's \<open>None\<close>.
\<close>

fun getitem_loop :: "int \<Rightarrow> int \<Rightarrow> 'a patch_dataset list \<Rightarrow> error + 'a option" where
  "getitem_loop idx i [] = Inr None"
| "getitem_loop idx i (pds # rest) =
     (if idx < i + int (pd_len pds) then
        (case pd_getitem pds (idx - i) of Inl e \<Rightarrow> Inl e | Inr v \<Rightarrow> Inr (Some v))
      else getitem_loop idx (i + int (pd_len pds)) rest)"

definition multi_getitem :: "'a patch_dataset list \<Rightarrow> int \<Rightarrow> error + 'a option" where
  "multi_getitem patch_datasets idx = getitem_loop idx 0 patch_datasets"

text \<open>A patch dataset backed by a Python list, for concrete runs: negative indices count from
  the end, an index out of range raises \<open>IndexError\<close>.\<close>

definition list_dataset :: "'a list \<Rightarrow> 'a patch_dataset" where
  "list_dataset xs =
     \<lparr>pd_len = length xs,
      pd_getitem = (\<lambda>j. let n = int (length xs); j' = (if j < 0 then n + j else j)
                         in if 0 \<le> j' \<and> j' < n then Inr (xs ! nat j') else Inl IndexError)\<rparr>"

text \<open>The sum of the lengths of the datasets before position \<open>j\<close>.\<close>

definition offset :: "'a patch_dataset list \<Rightarrow> nat \<Rightarrow> int" where
  "offset patch_datasets j = (\<Sum>pd\<leftarrow>take j patch_datasets. int (pd_len pd))"

subsection \<open>Point clouds and their bounding box\<close>

text \<open>A row of \<open>pos\<close>, an N x 3 tensor: columns 0, 1 and 2 are x, y and z.\<close>

type_synonym point = "real \<times> real \<times> real"

definition col0 :: "point \<Rightarrow> real" where
  "col0 p = fst p"

definition col1 :: "point \<Rightarrow> real" where
  "col1 p = fst (snd p)"

definition col2 :: "point \<Rightarrow> real" where
  "col2 p = snd (snd p)"

definition pmin :: "point \<Rightarrow> point \<Rightarrow> point" where
  "pmin q m = (min (col0 m) (col0 q), min (col1 m) (col1 q), min (col2 m) (col2 q))"

definition pmax :: "point \<Rightarrow> point \<Rightarrow> point" where
  "pmax q m = (max (col0 m) (col0 q), max (col1 m) (col1 q), max (col2 m) (col2 q))"

text \<open>\<open>pos.min(dim=0).values\<close> and \<open>pos.max(dim=0).values\<close>: the column-wise extremes. torch
  refuses the reduction of a tensor with no rows, with an \<open>IndexError\<close>.\<close>

fun min_dim0 :: "point list \<Rightarrow> error + point" where
  "min_dim0 [] = Inl IndexError"
| "min_dim0 (p # ps) = Inr (fold pmin ps p)"

fun max_dim0 :: "point list \<Rightarrow> error + point" where
  "max_dim0 [] = Inl IndexError"
| "max_dim0 (p # ps) = Inr (fold pmax ps p)"

definition get_bounding_box :: "point list \<Rightarrow> error + (point \<times> point)" where
  "get_bounding_box pos =
     (case min_dim0 pos of
        Inl e \<Rightarrow> Inl e
      | Inr minPoint \<Rightarrow>
          (case max_dim0 pos of
             Inl e \<Rightarrow> Inl e
           | Inr maxPoint \<Rightarrow> Inr (minPoint, maxPoint)))"

subsection \<open>\<open>Grid2DPatchDataset\<close>\<close>

record Grid2DPatchDataset =
  pos :: "point list"
  blockXDist :: real
  blockYDist :: real
  contextDist :: real
  strideXDist :: real
  strideYDist :: real
  minPoint :: point
  maxPoint :: point
  numBlocksX :: int
  numBlocksY :: int

text \<open>The value of a float expression: finite, an infinity (of either sign) or a NaN.\<close>

datatype fval = Finite real | Infinite | NaN

text \<open>
  The float operations of \<open>__init__\<close>: \<open>blockX - contextDist\<close> on the numbers passed in (taken
  to give a finite stride), a component of the tensor \<open>maxPoint - minPoint\<close>, and the tensor
  quotient \<open>cloudSize / stride\<close>, which raises nothing on a zero stride. Nothing is assumed of
  them.
\<close>

record float_arith =
  py_sub :: "real \<Rightarrow> real \<Rightarrow> real"
  tensor_sub :: "real \<Rightarrow> real \<Rightarrow> fval"
  tensor_div :: "fval \<Rightarrow> real \<Rightarrow> fval"

text \<open>
  \<open>math.ceil\<close> of a float: the ceiling of a finite value as a Python integer, which is exact;
  an infinity raises \<open>OverflowError\<close> and a NaN raises \<open>ValueError\<close>.
\<close>

definition math_ceil :: "fval \<Rightarrow> error + int" where
  "math_ceil q =
     (case q of
        Finite x \<Rightarrow> Inr \<lceil>x\<rceil>
      | Infinite \<Rightarrow> Inl OverflowError
      | NaN \<Rightarrow> Inl ValueError)"

text \<open>\<open>__init__\<close>. The second argument is \<open>data.pos\<close>, which the base class asserts not to be
  \<open>None\<close>. No argument is validated, and the block counts are the ceilings as they come.\<close>

definition Grid2DPatchDataset_init ::
  "float_arith \<Rightarrow> point list option \<Rightarrow> real \<Rightarrow> real \<Rightarrow> real \<Rightarrow>
   error + Grid2DPatchDataset" where
  "Grid2DPatchDataset_init ar data_pos blockX blockY contextDist' =
     (case data_pos of
        None \<Rightarrow> Inl AssertionError
      | Some ps \<Rightarrow>
          (let strideX = py_sub ar blockX contextDist';
               strideY = py_sub ar blockY contextDist'
           in case get_bounding_box ps of
                Inl e \<Rightarrow> Inl e
              | Inr (minP, maxP) \<Rightarrow>
                  (let cloudSizeX = tensor_sub ar (col0 maxP) (col0 minP);
                       cloudSizeY = tensor_sub ar (col1 maxP) (col1 minP)
                   in case math_ceil (tensor_div ar cloudSizeX strideX) of
                        Inl e \<Rightarrow> Inl e
                      | Inr nX \<Rightarrow>
                          (case math_ceil (tensor_div ar cloudSizeY strideY) of
                             Inl e \<Rightarrow> Inl e
                           | Inr nY \<Rightarrow>
                               Inr \<lparr>pos = ps,
                                    blockXDist = blockX,
                                    blockYDist = blockY,
                                    contextDist = contextDist',
                                    strideXDist = strideX,
                                    strideYDist = strideY,
                                    minPoint = minP,
                                    maxPoint = maxP,
                                    numBlocksX = nX,
                                    numBlocksY = nY\<rparr>))))"

text \<open>\<open>__len__\<close>\<close>

definition grid_len :: "Grid2DPatchDataset \<Rightarrow> int" where
  "grid_len g = numBlocksX g * numBlocksY g"

text \<open>\<open>_get_bounds_for_idx\<close>: \<open>divmod\<close> raises on a zero divisor and rounds towards minus
  infinity otherwise, as \<open>div\<close> and \<open>mod\<close> on \<^typ>\<open>int\<close> do. The index is not checked against
  the length.\<close>

definition get_bounds_for_idx ::
  "Grid2DPatchDataset \<Rightarrow> int \<Rightarrow> error + ((real \<times> real) \<times> (real \<times> real))" where
  "get_bounds_for_idx g idx =
     (if numBlocksX g = 0 then Inl ZeroDivisionError
      else
        let yIndex = idx div numBlocksX g;
            xIndex = idx mod numBlocksX g;
            blockMinY = col1 (minPoint g) + of_int yIndex * strideYDist g;
            blockMinX = col0 (minPoint g) + of_int xIndex * strideXDist g;
            blockMaxY = min (blockMinY + blockYDist g) (col1 (maxPoint g));
            blockMaxX = min (blockMinX + blockXDist g) (col0 (maxPoint g));
            xyMin = (blockMinX, blockMinY);
            xyMax = (blockMaxX, blockMaxY)
        in Inr (xyMin, xyMax))"

text \<open>\<open>_get_inner_bounds_for_idx\<close>\<close>

definition get_inner_bounds_for_idx ::
  "Grid2DPatchDataset \<Rightarrow> int \<Rightarrow> error + ((real \<times> real) \<times> (real \<times> real))" where
  "get_inner_bounds_for_idx g idx =
     (case get_bounds_for_idx g idx of
        Inl e \<Rightarrow> Inl e
      | Inr (xyMin, xyMax) \<Rightarrow>
          Inr ((fst xyMin + contextDist g, snd xyMin + contextDist g),
               (fst xyMax - contextDist g, snd xyMax - contextDist g)))"

text \<open>\<open>_get_box_index_arr\<close>: four boolean columns, their conjunction as a mask, and
  \<open>torch.arange(N)[mask]\<close>, the positions where the mask holds, in the order of \<open>arange\<close>.\<close>

definition get_box_index_arr ::
  "Grid2DPatchDataset \<Rightarrow> real \<times> real \<Rightarrow> real \<times> real \<Rightarrow> nat list" where
  "get_box_index_arr g xyMin xyMax =
     (let c1 = map (\<lambda>p. col0 p \<ge> fst xyMin) (pos g);
          c2 = map (\<lambda>p. col0 p \<le> fst xyMax) (pos g);
          c3 = map (\<lambda>p. col1 p \<ge> snd xyMin) (pos g);
          c4 = map (\<lambda>p. col1 p \<le> snd xyMax) (pos g);
          mask = map2 (\<and>) (map2 (\<and>) (map2 (\<and>) c1 c2) c3) c4
      in map fst (filter snd (zip [0..<length (pos g)] mask)))"

text \<open>The conjunction of the four comparisons, for one row.\<close>

definition in_box :: "real \<times> real \<Rightarrow> real \<times> real \<Rightarrow> point \<Rightarrow> bool" where
  "in_box xyMin xyMax p \<longleftrightarrow>
     fst xyMin \<le> col0 p \<and> col0 p \<le> fst xyMax \<and> snd xyMin \<le> col1 p \<and> col1 p \<le> snd xyMax"

text \<open>\<open>_get_block_index_arr\<close> and \<open>_get_inner_block_index_arr\<close>\<close>

definition get_block_index_arr :: "Grid2DPatchDataset \<Rightarrow> int \<Rightarrow> error + nat list" where
  "get_block_index_arr g idx =
     (case get_bounds_for_idx g idx of
        Inl e \<Rightarrow> Inl e
      | Inr (xyMin, xyMax) \<Rightarrow> Inr (get_box_index_arr g xyMin xyMax))"

definition get_inner_block_index_arr :: "Grid2DPatchDataset \<Rightarrow> int \<Rightarrow> error + nat list" where
  "get_inner_block_index_arr g idx =
     (case get_inner_bounds_for_idx g idx of
        Inl e \<Rightarrow> Inl e
      | Inr (xyMin, xyMax) \<Rightarrow> Inr (get_box_index_arr g xyMin xyMax))"

text \<open>For the coverage claim: the union of the outer point sets of the block indices
  \<open>0, ..., len - 1\<close>. An index whose query raises contributes nothing.\<close>

definition all_block_points :: "Grid2DPatchDataset \<Rightarrow> nat set" where
  "all_block_points g =
     (\<Union>idx \<in> {0..<grid_len g}.
        case get_block_index_arr g idx of Inl e \<Rightarrow> {} | Inr index \<Rightarrow> set index)"

text \<open>
  The arithmetic that does not round, for concrete runs: float arithmetic agrees with it
  wherever the exact result is a float. In the runs of the constructor below every operand
  and every result is a small integer.
\<close>

definition exact_arith :: float_arith where
  "exact_arith =
     \<lparr>py_sub = (\<lambda>a b. a - b),
      tensor_sub = (\<lambda>a b. Finite (a - b)),
      tensor_div = (\<lambda>a s.
        case a of
          Finite x \<Rightarrow>
            if s = 0 then (if x = 0 then NaN else Infinite) else Finite (x / s)
        | Infinite \<Rightarrow> Infinite
        | NaN \<Rightarrow> NaN)\<rparr>"

text \<open>Four grid states for concrete runs: a single point; two points with a context distance
  above the block sizes; two points with one block along x and two along y; two opposite
  corners of the unit square and its centre.\<close>

definition single_point_grid :: Grid2DPatchDataset where
  "single_point_grid =
     \<lparr>pos = [(0, 0, 0)], blockXDist = 2, blockYDist = 2, contextDist = 1,
      strideXDist = 1, strideYDist = 1, minPoint = (0, 0, 0), maxPoint = (0, 0, 0),
      numBlocksX = 0, numBlocksY = 0\<rparr>"

definition negative_stride_grid :: Grid2DPatchDataset where
  "negative_stride_grid =
     \<lparr>pos = [(0, 0, 0), (1, 1, 0)], blockXDist = 2, blockYDist = 2, contextDist = 3,
      strideXDist = - 1, strideYDist = - 1, minPoint = (0, 0, 0), maxPoint = (1, 1, 0),
      numBlocksX = - 1, numBlocksY = - 1\<rparr>"


definition unit_square_grid :: Grid2DPatchDataset where
  "unit_square_grid =
     \<lparr>pos = [(0, 0, 0), (1, 1, 5), (1 / 2, 1 / 2, 2)],
      blockXDist = 1, blockYDist = 1, contextDist = 1 / 4,
      strideXDist = 3 / 4, strideYDist = 3 / 4, minPoint = (0, 0, 0), maxPoint = (1, 1, 5),
      numBlocksX = 2, numBlocksY = 2\<rparr>"

subsection \<open>\<open>BaseBallPointCloud\<close> and its spatial index\<close>

text \<open>
  \<open>BaseBallPointCloud\<close> keeps a KD-tree, built by \<open>build_kdtree\<close> of \<open>utils.pointcloud_utils\<close>
  (not part of this file, its import is commented out), and \<open>knn_query\<close> calls the tree's own
  \<open>search_knn_vector_3d\<close>. The tree is therefore a parameter of the model: whatever answers the
  search, with a count, the indices and the squared distances, or with an error.
\<close>

record kdtree =
  search_knn_vector_3d :: "point \<Rightarrow> int \<Rightarrow> error + (int \<times> nat list \<times> real list)"

record BaseBallPointCloud =
  kdtree :: kdtree

text \<open>\<open>knn_query\<close>: the answer of the tree is unpacked into \<open>k, indices, dist2\<close> and returned;
  an error of the search is passed on. The method has no check of its own.\<close>

definition knn_query ::
  "BaseBallPointCloud \<Rightarrow> point \<Rightarrow> int \<Rightarrow> error + (int \<times> nat list \<times> real list)" where
  "knn_query self point k =
     (case search_knn_vector_3d (kdtree self) point k of
        Inl e \<Rightarrow> Inl e
      | Inr (k', indices, dist2') \<Rightarrow> Inr (k', indices, dist2'))"

text \<open>Modelled from the spec: the squared Euclidean distance in 3D that a search reports for
  each neighbour (section 4.4).\<close>

definition dist2 :: "point \<Rightarrow> point \<Rightarrow> real" where
  "dist2 p q = (col0 p - col0 q)\<^sup>2 + (col1 p - col1 q)\<^sup>2 + (col2 p - col2 q)\<^sup>2"

text \<open>Modelled from the spec: a tree over the points \<open>ps\<close> whose search silently truncates, as
  section 9 reports of the index of the source: asked for \<open>k\<close> neighbours, it answers with the
  nearest \<open>min k N\<close> points by increasing distance. It stands for the missing index in
  concrete runs only; the run below has \<open>k\<close> positive and no two points at one distance.\<close>

definition truncating_tree :: "point list \<Rightarrow> kdtree" where
  "truncating_tree ps =
     \<lparr>search_knn_vector_3d = (\<lambda>point k.
        let order = sort_key (\<lambda>i. dist2 (ps ! i) point) [0..<length ps];
            indices = take (nat k) order
        in Inr (int (length indices), indices, map (\<lambda>i. dist2 (ps ! i) point) indices))\<rparr>"

text \<open>A cloud of five points for concrete runs.\<close>

definition five_points :: BaseBallPointCloud where
  "five_points =
     \<lparr>kdtree = truncating_tree [(3, 0, 0), (0, 1, 0), (0, 0, 2), (0, - 4, 0), (5, 5, 5)]\<rparr>"

subsection \<open>Properties of the aggregator\<close>

lemma foldl_len_acc:
  "foldl (\<lambda>acc pd. acc + int (pd_len pd)) a pds = a + (\<Sum>pd\<leftarrow>pds. int (pd_len pd))"
  by (induction pds arbitrary: a) simp_all

lemma multi_len_sum: "multi_len pds = (\<Sum>pd\<leftarrow>pds. int (pd_len pd))"
  by (simp add: multi_len_def foldl_len_acc)

lemma getitem_loop_past_end:
  "i + (\<Sum>pd\<leftarrow>pds. int (pd_len pd)) \<le> idx \<Longrightarrow> getitem_loop idx i pds = Inr None"
proof (induction pds arbitrary: i)
  case Nil
  show ?case by simp
next
  case (Cons pd pds)
  have "0 \<le> (\<Sum>q\<leftarrow>pds. int (pd_len q))"
    by (rule sum_list_nonneg) auto
  with Cons.prems have far: "\<not> idx < i + int (pd_len pd)"
    by simp
  from Cons.prems have "(i + int (pd_len pd)) + (\<Sum>q\<leftarrow>pds. int (pd_len q)) \<le> idx"
    by simp
  then have "getitem_loop idx (i + int (pd_len pd)) pds = Inr None"
    by (rule Cons.IH)
  with far show ?case by simp
qed

lemma offset_Suc:
  "j < length pds \<Longrightarrow> offset pds (Suc j) = offset pds j + int (pd_len (pds ! j))"
  by (simp add: offset_def take_Suc_conv_app_nth)

lemma offset_mono: "j \<le> k \<Longrightarrow> offset pds j \<le> offset pds k"
proof (induction k)
  case 0
  then show ?case by simp
next
  case (Suc k)
  show ?case
  proof (cases "j = Suc k")
    case True
    then show ?thesis by simp
  next
    case False
    with Suc have le: "offset pds j \<le> offset pds k" by simp
    show ?thesis
    proof (cases "k < length pds")
      case True
      with le show ?thesis by (simp add: offset_Suc)
    next
      case False
      then have "offset pds (Suc k) = offset pds k" by (simp add: offset_def)
      with le show ?thesis by simp
    qed
  qed
qed

text \<open>At most one dataset owns a global index: the half-open ranges do not overlap.\<close>

lemma owner_unique:
  assumes j: "j < length pds" "offset pds j \<le> idx" "idx < offset pds j + int (pd_len (pds ! j))"
    and k: "k < length pds" "offset pds k \<le> idx" "idx < offset pds k + int (pd_len (pds ! k))"
  shows "j = k"
proof (rule ccontr)
  assume "j \<noteq> k"
  then consider "Suc j \<le> k" | "Suc k \<le> j" by linarith
  then show False
  proof cases
    case 1
    from offset_mono [OF 1, of pds] j(1) have "offset pds j + int (pd_len (pds ! j)) \<le> offset pds k"
      by (simp add: offset_Suc)
    with j(3) k(2) show False by simp
  next
    case 2
    from offset_mono [OF 2, of pds] k(1) have "offset pds k + int (pd_len (pds ! k)) \<le> offset pds j"
      by (simp add: offset_Suc)
    with k(3) j(2) show False by simp
  qed
qed

text \<open>The loop, started at offset \<open>i\<close>, finds the owner of every index in its range.\<close>

lemma getitem_loop_owner:
  "i \<le> idx \<Longrightarrow> idx < i + (\<Sum>pd\<leftarrow>pds. int (pd_len pd)) \<Longrightarrow>
   \<exists>j<length pds.
      i + offset pds j \<le> idx \<and> idx < i + offset pds j + int (pd_len (pds ! j)) \<and>
      getitem_loop idx i pds =
        (case pd_getitem (pds ! j) (idx - (i + offset pds j)) of
           Inl e \<Rightarrow> Inl e | Inr v \<Rightarrow> Inr (Some v))"
proof (induction pds arbitrary: i)
  case Nil
  then show ?case by simp
next
  case (Cons pd pds)
  show ?case
  proof (cases "idx < i + int (pd_len pd)")
    case True
    with Cons.prems(1) have
      "i + offset (pd # pds) 0 \<le> idx \<and>
       idx < i + offset (pd # pds) 0 + int (pd_len ((pd # pds) ! 0)) \<and>
       getitem_loop idx i (pd # pds) =
         (case pd_getitem ((pd # pds) ! 0) (idx - (i + offset (pd # pds) 0)) of
            Inl e \<Rightarrow> Inl e | Inr v \<Rightarrow> Inr (Some v))"
      by (simp add: offset_def)
    then show ?thesis by blast
  next
    case False
    then have lo: "i + int (pd_len pd) \<le> idx" by simp
    from Cons.prems(2) have hi: "idx < (i + int (pd_len pd)) + (\<Sum>q\<leftarrow>pds. int (pd_len q))"
      by simp
    from Cons.IH [OF lo hi] obtain j where j: "j < length pds"
      and b1: "i + int (pd_len pd) + offset pds j \<le> idx"
      and b2: "idx < i + int (pd_len pd) + offset pds j + int (pd_len (pds ! j))"
      and g: "getitem_loop idx (i + int (pd_len pd)) pds =
        (case pd_getitem (pds ! j) (idx - (i + int (pd_len pd) + offset pds j)) of
           Inl e \<Rightarrow> Inl e | Inr v \<Rightarrow> Inr (Some v))"
      by blast
    have off: "offset (pd # pds) (Suc j) = int (pd_len pd) + offset pds j"
      by (simp add: offset_def)
    have "Suc j < length (pd # pds) \<and>
       i + offset (pd # pds) (Suc j) \<le> idx \<and>
       idx < i + offset (pd # pds) (Suc j) + int (pd_len ((pd # pds) ! Suc j)) \<and>
       getitem_loop idx i (pd # pds) =
         (case pd_getitem ((pd # pds) ! Suc j) (idx - (i + offset (pd # pds) (Suc j))) of
            Inl e \<Rightarrow> Inl e | Inr v \<Rightarrow> Inr (Some v))"
      using j b1 b2 g False by (simp add: off add.assoc)
    then show ?thesis by blast
  qed
qed

subsection \<open>Claims about the aggregator\<close>

text \<open>
  C1, as the specification states it, fails: for the three list-backed datasets of lengths 2, 0
  and 3 the total length is 5, and \<open>__getitem__\<close> at index 5 raises nothing; the loop ends and
  the call returns \<open>None\<close>.
\<close>

theorem C1_getitem_past_end_counterexample:
  "multi_getitem [list_dataset [10, 11 :: int], list_dataset [], list_dataset [20, 21, 22]] 5
     = Inr None"
  by (simp add: multi_getitem_def list_dataset_def)

text \<open>
  C1 (amended): for every list of patch datasets and every index greater than or equal to the
  sum of their lengths, \<open>__getitem__\<close> raises no error: the scan falls through all the datasets
  and the call returns \<open>None\<close>.
\<close>

theorem C1_getitem_past_end_returns_None:
  "multi_len pds \<le> idx \<Longrightarrow> multi_getitem pds idx = Inr None"
  unfolding multi_getitem_def multi_len_sum
  by (rule getitem_loop_past_end) simp

theorem C1_getitem_past_end_witness:
  "multi_len [list_dataset [10, 11 :: int], list_dataset [20]] \<le> 7 \<and>
   multi_getitem [list_dataset [10, 11 :: int], list_dataset [20]] 7 = Inr None"
proof -
  have h: "multi_len [list_dataset [10, 11 :: int], list_dataset [20]] \<le> 7"
    by (simp add: multi_len_def list_dataset_def)
  from h C1_getitem_past_end_returns_None [OF h] show ?thesis by simp
qed

text \<open>
  C8: the length of the aggregator is the sum of the lengths of its datasets, and for every
  index \<open>idx\<close> with \<open>0 \<le> idx < length\<close> there is a dataset \<open>j\<close>, the only one whose range
  \<open>[offset j, offset j + len j)\<close> holds \<open>idx\<close>, and \<open>__getitem__\<close> returns what dataset \<open>j\<close> returns at
  the local index \<open>idx - offset j\<close> (an error of that dataset is passed on). Datasets of length
  zero own no index and are skipped.
\<close>

theorem C8_aggregator_linear_index:
  "multi_len pds = (\<Sum>pd\<leftarrow>pds. int (pd_len pd)) \<and>
   (0 \<le> idx \<and> idx < multi_len pds \<longrightarrow>
     (\<exists>j<length pds.
        offset pds j \<le> idx \<and> idx < offset pds j + int (pd_len (pds ! j)) \<and>
        multi_getitem pds idx =
          (case pd_getitem (pds ! j) (idx - offset pds j) of
             Inl e \<Rightarrow> Inl e | Inr v \<Rightarrow> Inr (Some v)) \<and>
        (\<forall>k<length pds.
           offset pds k \<le> idx \<and> idx < offset pds k + int (pd_len (pds ! k)) \<longrightarrow> k = j)))"
proof (intro conjI impI)
  show "multi_len pds = (\<Sum>pd\<leftarrow>pds. int (pd_len pd))"
    by (rule multi_len_sum)
next
  assume r: "0 \<le> idx \<and> idx < multi_len pds"
  then have lo: "0 \<le> idx" and hi: "idx < 0 + (\<Sum>pd\<leftarrow>pds. int (pd_len pd))"
    by (simp_all add: multi_len_sum)
  from getitem_loop_owner [OF lo hi] obtain j where j: "j < length pds"
    and b1: "offset pds j \<le> idx" and b2: "idx < offset pds j + int (pd_len (pds ! j))"
    and g: "getitem_loop idx 0 pds =
        (case pd_getitem (pds ! j) (idx - offset pds j) of
           Inl e \<Rightarrow> Inl e | Inr v \<Rightarrow> Inr (Some v))"
    by auto
  have uniq: "\<forall>k<length pds.
      offset pds k \<le> idx \<and> idx < offset pds k + int (pd_len (pds ! k)) \<longrightarrow> k = j"
    using owner_unique [OF _ _ _ j b1 b2] by blast
  from j b1 b2 g uniq show "\<exists>j<length pds.
        offset pds j \<le> idx \<and> idx < offset pds j + int (pd_len (pds ! j)) \<and>
        multi_getitem pds idx =
          (case pd_getitem (pds ! j) (idx - offset pds j) of
             Inl e \<Rightarrow> Inl e | Inr v \<Rightarrow> Inr (Some v)) \<and>
        (\<forall>k<length pds.
           offset pds k \<le> idx \<and> idx < offset pds k + int (pd_len (pds ! k)) \<longrightarrow> k = j)"
    unfolding multi_getitem_def by blast
qed

text \<open>The run of the specification: lengths 2, 0 and 3; index 3 is local index 1 of the
  third dataset.\<close>

theorem C8_aggregator_linear_index_witness:
  "multi_len [list_dataset [10, 11 :: int], list_dataset [], list_dataset [20, 21, 22]] = 5 \<and>
   multi_getitem [list_dataset [10, 11 :: int], list_dataset [], list_dataset [20, 21, 22]] 3
     = Inr (Some 21)"
proof -
  let ?pds = "[list_dataset [10, 11 :: int], list_dataset [], list_dataset [20, 21, 22]]"
  have len: "multi_len ?pds = 5"
    by (simp add: multi_len_def list_dataset_def)
  have rng: "0 \<le> (3::int) \<and> 3 < multi_len ?pds"
    by (simp add: len)
  from C8_aggregator_linear_index [of ?pds 3] rng obtain j where j: "j < length ?pds"
    and b1: "offset ?pds j \<le> 3" and b2: "3 < offset ?pds j + int (pd_len (?pds ! j))"
    and g: "multi_getitem ?pds 3 =
          (case pd_getitem (?pds ! j) (3 - offset ?pds j) of
             Inl e \<Rightarrow> Inl e | Inr v \<Rightarrow> Inr (Some v))"
    by blast
  from j have "j = 0 \<or> j = 1 \<or> j = 2" by simp arith
  with b1 b2 have "j = 2"
    by (auto simp: offset_def list_dataset_def)
  with g have "multi_getitem ?pds 3 = Inr (Some 21)"
    by (simp add: offset_def list_dataset_def)
  with len show ?thesis by simp
qed

subsection \<open>Properties of the membership query\<close>

lemma map2_same: "map2 f (map p xs) (map q xs) = map (\<lambda>x. f (p x) (q x)) xs"
  by (induction xs) simp_all

lemma masked_arange:
  "map fst (filter snd (zip [0..<length xs] (map P xs))) = filter (\<lambda>i. P (xs ! i)) [0..<length xs]"
proof (induction xs rule: rev_induct)
  case Nil
  show ?case by simp
next
  case (snoc x xs)
  have "filter (\<lambda>i. P ((xs @ [x]) ! i)) [0..<length xs] = filter (\<lambda>i. P (xs ! i)) [0..<length xs]"
    by (rule filter_cong) (simp_all add: nth_append)
  with snoc show ?case by simp
qed

lemma get_box_index_arr_filter:
  "get_box_index_arr g xyMin xyMax =
     filter (\<lambda>i. in_box xyMin xyMax (pos g ! i)) [0..<length (pos g)]"
proof -
  have "get_box_index_arr g xyMin xyMax =
      map fst (filter snd (zip [0..<length (pos g)] (map (in_box xyMin xyMax) (pos g))))"
    by (simp add: get_box_index_arr_def Let_def map2_same in_box_def [abs_def])
  then show ?thesis by (simp only: masked_arange)
qed

lemma set_get_box_index_arr:
  "set (get_box_index_arr g xyMin xyMax) =
     {i. i < length (pos g) \<and> in_box xyMin xyMax (pos g ! i)}"
  by (auto simp: get_box_index_arr_filter)

lemma strict_sorted_get_box_index_arr:
  "sorted_wrt (<) (get_box_index_arr g xyMin xyMax)"
  unfolding get_box_index_arr_filter by (rule sorted_wrt_filter) simp

subsection \<open>Claims about the membership query\<close>

text \<open>
  C5: the membership query returns exactly the positions \<open>i\<close> of the cloud with
  \<open>xyMin.x \<le> pos[i].x \<le> xyMax.x\<close> and \<open>xyMin.y \<le> pos[i].y \<le> xyMax.y\<close>, all four comparisons
  inclusive; the z coordinate plays no part: replacing every z by any other value leaves the
  result as it is.
\<close>

theorem C5_box_membership:
  "set (get_box_index_arr g xyMin xyMax) =
     {i. i < length (pos g) \<and>
         fst xyMin \<le> col0 (pos g ! i) \<and> col0 (pos g ! i) \<le> fst xyMax \<and>
         snd xyMin \<le> col1 (pos g ! i) \<and> col1 (pos g ! i) \<le> snd xyMax} \<and>
   get_box_index_arr (g\<lparr>pos := map (\<lambda>p. (col0 p, col1 p, z' p)) (pos g)\<rparr>) xyMin xyMax =
     get_box_index_arr g xyMin xyMax"
proof
  show "set (get_box_index_arr g xyMin xyMax) =
     {i. i < length (pos g) \<and>
         fst xyMin \<le> col0 (pos g ! i) \<and> col0 (pos g ! i) \<le> fst xyMax \<and>
         snd xyMin \<le> col1 (pos g ! i) \<and> col1 (pos g ! i) \<le> snd xyMax}"
    by (simp add: set_get_box_index_arr in_box_def)
next
  show "get_box_index_arr (g\<lparr>pos := map (\<lambda>p. (col0 p, col1 p, z' p)) (pos g)\<rparr>) xyMin xyMax =
     get_box_index_arr g xyMin xyMax"
    unfolding get_box_index_arr_filter
    by (rule filter_cong) (simp_all add: in_box_def col0_def col1_def)
qed

text \<open>
  C10: the sequence the membership query returns is strictly increasing, has no duplicates, and
  each of its elements is a position of the cloud; so two queries over one cloud select the same
  set of points exactly when they return equal sequences.
\<close>

theorem C10_box_index_strictly_increasing:
  "sorted_wrt (<) (get_box_index_arr g xyMin xyMax) \<and>
   distinct (get_box_index_arr g xyMin xyMax) \<and>
   set (get_box_index_arr g xyMin xyMax) \<subseteq> {0..<length (pos g)} \<and>
   (set (get_box_index_arr g xyMin xyMax) = set (get_box_index_arr g xyMin' xyMax') \<longleftrightarrow>
      get_box_index_arr g xyMin xyMax = get_box_index_arr g xyMin' xyMax')"
proof (intro conjI)
  show s: "sorted_wrt (<) (get_box_index_arr g xyMin xyMax)"
    by (rule strict_sorted_get_box_index_arr)
  show "distinct (get_box_index_arr g xyMin xyMax)"
    using s by (simp add: strict_sorted_iff)
  show "set (get_box_index_arr g xyMin xyMax) \<subseteq> {0..<length (pos g)}"
    by (auto simp: set_get_box_index_arr)
  show "set (get_box_index_arr g xyMin xyMax) = set (get_box_index_arr g xyMin' xyMax') \<longleftrightarrow>
      get_box_index_arr g xyMin xyMax = get_box_index_arr g xyMin' xyMax'"
    using strict_sorted_equal [OF s strict_sorted_get_box_index_arr [of g xyMin' xyMax']]
    by auto
qed

subsection \<open>Properties of \<open>__init__\<close>\<close>



lemma math_ceil_not_finite:
  "\<forall>x. q \<noteq> Finite x \<Longrightarrow> math_ceil q = Inl OverflowError \<or> math_ceil q = Inl ValueError"
  by (cases q) (simp_all add: math_ceil_def)

lemma init_single_point_grid:
  "Grid2DPatchDataset_init exact_arith (Some [(0, 0, 0)]) 2 2 1 = Inr single_point_grid"
  by (simp add: Grid2DPatchDataset_init_def Let_def get_bounding_box_def math_ceil_def exact_arith_def
        single_point_grid_def col0_def col1_def)

lemma init_negative_stride_grid:
  "Grid2DPatchDataset_init exact_arith (Some [(0, 0, 0), (1, 1, 0)]) 2 2 3
     = Inr negative_stride_grid"
  by (simp add: Grid2DPatchDataset_init_def Let_def get_bounding_box_def math_ceil_def exact_arith_def
        negative_stride_grid_def col0_def col1_def col2_def pmin_def pmax_def ceiling_minus)


lemma all_block_points_single_point_grid: "all_block_points single_point_grid = {}"
  by (simp add: all_block_points_def grid_len_def single_point_grid_def)

subsection \<open>Claims about the construction of the grid\<close>




text \<open>
  C6, as the specification states it, fails: \<open>__init__\<close> validates nothing. With blocks of 2 by 2
  and a context distance of 3 (strides of -1) over two points, construction succeeds and
  produces grid state, with -1 blocks along each axis and a length of 1.
\<close>

theorem C6_negative_stride_counterexample:
  "Grid2DPatchDataset_init exact_arith (Some [(0, 0, 0), (1, 1, 0)]) 2 2 3
     = Inr negative_stride_grid \<and>
   grid_len negative_stride_grid = 1"
  using init_negative_stride_grid by (simp add: grid_len_def negative_stride_grid_def)

text \<open>
  C6 (amended): over a non-empty cloud, whatever the float arithmetic, the context distance
  is never compared with the block sizes, so a context distance at or above the block width
  or height is not rejected as such. Construction succeeds whenever the two float quotients
  \<open>cloudSize / stride\<close> are finite, and then produces grid state that keeps the block sizes
  and the context distance as given and has the ceilings of the quotients as block counts;
  it fails exactly when a quotient is infinite or NaN, with the \<open>OverflowError\<close> or
  \<open>ValueError\<close> that \<open>math.ceil\<close> raises.
\<close>

theorem C6_no_validation:
  assumes "get_bounding_box ps = Inr (minP, maxP)"
  shows "(\<forall>qx qy.
            tensor_div ar (tensor_sub ar (col0 maxP) (col0 minP)) (py_sub ar bx c) = Finite qx \<and>
            tensor_div ar (tensor_sub ar (col1 maxP) (col1 minP)) (py_sub ar by c) = Finite qy \<longrightarrow>
            (\<exists>g. Grid2DPatchDataset_init ar (Some ps) bx by c = Inr g \<and>
                 blockXDist g = bx \<and> blockYDist g = by \<and> contextDist g = c \<and>
                 strideXDist g = py_sub ar bx c \<and> strideYDist g = py_sub ar by c \<and>
                 numBlocksX g = \<lceil>qx\<rceil> \<and> numBlocksY g = \<lceil>qy\<rceil>)) \<and>
         ((\<forall>qx. tensor_div ar (tensor_sub ar (col0 maxP) (col0 minP)) (py_sub ar bx c)
                  \<noteq> Finite qx) \<or>
          (\<forall>qy. tensor_div ar (tensor_sub ar (col1 maxP) (col1 minP)) (py_sub ar by c)
                  \<noteq> Finite qy) \<longrightarrow>
            Grid2DPatchDataset_init ar (Some ps) bx by c = Inl OverflowError \<or>
            Grid2DPatchDataset_init ar (Some ps) bx by c = Inl ValueError)"
proof (intro conjI allI impI)
  fix qx qy
  assume "tensor_div ar (tensor_sub ar (col0 maxP) (col0 minP)) (py_sub ar bx c) = Finite qx \<and>
          tensor_div ar (tensor_sub ar (col1 maxP) (col1 minP)) (py_sub ar by c) = Finite qy"
  with assms show "\<exists>g. Grid2DPatchDataset_init ar (Some ps) bx by c = Inr g \<and>
                 blockXDist g = bx \<and> blockYDist g = by \<and> contextDist g = c \<and>
                 strideXDist g = py_sub ar bx c \<and> strideYDist g = py_sub ar by c \<and>
                 numBlocksX g = \<lceil>qx\<rceil> \<and> numBlocksY g = \<lceil>qy\<rceil>"
    by (simp add: Grid2DPatchDataset_init_def Let_def math_ceil_def)
next
  let ?qx = "tensor_div ar (tensor_sub ar (col0 maxP) (col0 minP)) (py_sub ar bx c)"
  let ?qy = "tensor_div ar (tensor_sub ar (col1 maxP) (col1 minP)) (py_sub ar by c)"
  assume nf: "(\<forall>qx. ?qx \<noteq> Finite qx) \<or> (\<forall>qy. ?qy \<noteq> Finite qy)"
  show "Grid2DPatchDataset_init ar (Some ps) bx by c = Inl OverflowError \<or>
        Grid2DPatchDataset_init ar (Some ps) bx by c = Inl ValueError"
  proof (cases "\<forall>qx. ?qx \<noteq> Finite qx")
    case True
    from math_ceil_not_finite [OF True] assms show ?thesis
      by (auto simp: Grid2DPatchDataset_init_def Let_def)
  next
    case False
    with nf have y: "\<forall>qy. ?qy \<noteq> Finite qy" by blast
    from False obtain x where "?qx = Finite x" by blast
    then have "math_ceil ?qx = Inr \<lceil>x\<rceil>" by (simp add: math_ceil_def)
    with math_ceil_not_finite [OF y] assms show ?thesis
      by (auto simp: Grid2DPatchDataset_init_def Let_def)
  qed
qed

theorem C6_no_validation_witness:
  "get_bounding_box [(0, 0, 0), (1, 1, 0)] = Inr ((0, 0, 0), (1, 1, 0)) \<and>
   Grid2DPatchDataset_init exact_arith (Some [(0, 0, 0), (1, 1, 0)]) 2 2 3
     = Inr negative_stride_grid \<and>
   contextDist negative_stride_grid = 3 \<and> blockXDist negative_stride_grid = 2 \<and>
   numBlocksX negative_stride_grid = - 1 \<and> numBlocksY negative_stride_grid = - 1"
proof -
  have bb: "get_bounding_box [(0, 0, 0), (1, 1, 0)] = Inr ((0, 0, 0), (1, 1, 0))"
    by (simp add: get_bounding_box_def pmin_def pmax_def col0_def col1_def col2_def)
  have q: "tensor_div exact_arith (tensor_sub exact_arith (col0 (1, 1, 0)) (col0 (0, 0, 0)))
             (py_sub exact_arith 2 3) = Finite (- 1) \<and>
           tensor_div exact_arith (tensor_sub exact_arith (col1 (1, 1, 0)) (col1 (0, 0, 0)))
             (py_sub exact_arith 2 3) = Finite (- 1)"
    by (simp add: exact_arith_def col0_def col1_def)
  from C6_no_validation [OF bb, of exact_arith 2 3 2] q obtain g where
    g: "Grid2DPatchDataset_init exact_arith (Some [(0, 0, 0), (1, 1, 0)]) 2 2 3 = Inr g"
    "contextDist g = 3" "blockXDist g = 2"
    "numBlocksX g = \<lceil>- 1 :: real\<rceil>" "numBlocksY g = \<lceil>- 1 :: real\<rceil>"
    by blast
  from g(1) init_negative_stride_grid have "g = negative_stride_grid" by simp
  with g bb show ?thesis by (simp add: ceiling_minus)
qed

subsection \<open>Properties of the block bounds\<close>

lemma get_bounds_for_idx_Inr:
  "numBlocksX g \<noteq> 0 \<Longrightarrow>
   get_bounds_for_idx g idx =
     Inr ((col0 (minPoint g) + of_int (idx mod numBlocksX g) * strideXDist g,
           col1 (minPoint g) + of_int (idx div numBlocksX g) * strideYDist g),
          (min (col0 (minPoint g) + of_int (idx mod numBlocksX g) * strideXDist g + blockXDist g)
               (col0 (maxPoint g)),
           min (col1 (minPoint g) + of_int (idx div numBlocksX g) * strideYDist g + blockYDist g)
               (col1 (maxPoint g))))"
  by (simp add: get_bounds_for_idx_def Let_def)

lemma in_range_nonzero:
  fixes idx :: int
  assumes "0 \<le> idx" "idx < grid_len g"
  shows "numBlocksX g \<noteq> 0"
  using assms by (auto simp: grid_len_def)

subsection \<open>Claims about the blocks\<close>

text \<open>
  C4: for every block index \<open>idx\<close> with \<open>0 \<le> idx < numBlocksX * numBlocksY\<close> the outer bounds
  are those of row \<open>idx div numBlocksX\<close> and column \<open>idx mod numBlocksX\<close> (row-major:
  \<open>idx = row * numBlocksX + col\<close>): \<open>blockMinX = minPoint.x + col * strideX\<close>,
  \<open>blockMinY = minPoint.y + row * strideY\<close>, \<open>blockMaxX = min (blockMinX + blockWidth) maxPoint.x\<close>
  and \<open>blockMaxY = min (blockMinY + blockHeight) maxPoint.y\<close>; no error is raised.
\<close>

theorem C4_outer_bounds:
  assumes "0 \<le> idx" and "idx < numBlocksX g * numBlocksY g"
  shows "get_bounds_for_idx g idx =
     Inr (let row = idx div numBlocksX g;
              col = idx mod numBlocksX g;
              blockMinX = col0 (minPoint g) + of_int col * strideXDist g;
              blockMinY = col1 (minPoint g) + of_int row * strideYDist g;
              blockMaxX = min (blockMinX + blockXDist g) (col0 (maxPoint g));
              blockMaxY = min (blockMinY + blockYDist g) (col1 (maxPoint g))
          in ((blockMinX, blockMinY), (blockMaxX, blockMaxY))) \<and>
     idx = (idx div numBlocksX g) * numBlocksX g + idx mod numBlocksX g"
proof -
  from assms have "numBlocksX g \<noteq> 0" by auto
  then show ?thesis by (simp add: get_bounds_for_idx_Inr Let_def)
qed

theorem C4_outer_bounds_witness:
  "(0::int) \<le> 3 \<and> 3 < numBlocksX unit_square_grid * numBlocksY unit_square_grid \<and>
   get_bounds_for_idx unit_square_grid 3 = Inr ((3 / 4, 3 / 4), (1, 1))"
proof -
  have h: "(0::int) \<le> 3" "3 < numBlocksX unit_square_grid * numBlocksY unit_square_grid"
    by (simp_all add: unit_square_grid_def)
  from C4_outer_bounds [OF h] have
    "get_bounds_for_idx unit_square_grid 3 = Inr ((3 / 4, 3 / 4), (1, 1))"
    by (simp add: unit_square_grid_def col0_def col1_def Let_def)
  with h show ?thesis by simp
qed

text \<open>
  C9: for a grid with a non-negative context distance and every block index \<open>idx\<close> with
  \<open>0 \<le> idx < len\<close>, the inner query and the outer query both return, and the inner point set is
  a subset of the outer point set; when the shrunk bounds have a minimum above the maximum on
  an axis, the inner query returns the empty sequence and no error.
\<close>

theorem C9_inner_subset_outer:
  assumes "0 \<le> contextDist g" and "0 \<le> idx" and "idx < grid_len g"
  shows "\<exists>inner outer.
           get_inner_block_index_arr g idx = Inr inner \<and>
           get_block_index_arr g idx = Inr outer \<and>
           set inner \<subseteq> set outer \<and>
           (\<forall>xyMin xyMax.
              get_inner_bounds_for_idx g idx = Inr (xyMin, xyMax) \<and>
              (fst xyMax < fst xyMin \<or> snd xyMax < snd xyMin) \<longrightarrow> inner = [])"
proof -
  from in_range_nonzero [OF assms(2,3)] have nz: "numBlocksX g \<noteq> 0" .
  from get_bounds_for_idx_Inr [OF nz, of idx] obtain xyMin xyMax where
    b: "get_bounds_for_idx g idx = Inr (xyMin, xyMax)" by blast
  define iMin where "iMin = (fst xyMin + contextDist g, snd xyMin + contextDist g)"
  define iMax where "iMax = (fst xyMax - contextDist g, snd xyMax - contextDist g)"
  have ib: "get_inner_bounds_for_idx g idx = Inr (iMin, iMax)"
    by (simp add: get_inner_bounds_for_idx_def b iMin_def iMax_def)
  have inner: "get_inner_block_index_arr g idx = Inr (get_box_index_arr g iMin iMax)"
    by (simp add: get_inner_block_index_arr_def ib)
  have outer: "get_block_index_arr g idx = Inr (get_box_index_arr g xyMin xyMax)"
    by (simp add: get_block_index_arr_def b)
  have sub: "set (get_box_index_arr g iMin iMax) \<subseteq> set (get_box_index_arr g xyMin xyMax)"
    using assms(1) by (auto simp: set_get_box_index_arr in_box_def iMin_def iMax_def)
  have emp: "get_box_index_arr g iMin iMax = []"
    if "fst iMax < fst iMin \<or> snd iMax < snd iMin"
  proof -
    from that have "set (get_box_index_arr g iMin iMax) = {}"
      by (auto simp: set_get_box_index_arr in_box_def)
    then show ?thesis by simp
  qed
  from inner outer sub emp ib show ?thesis by auto
qed

theorem C9_inner_subset_outer_witness:
  "0 \<le> contextDist unit_square_grid \<and> (0::int) \<le> 3 \<and> 3 < grid_len unit_square_grid \<and>
   get_inner_block_index_arr unit_square_grid 3 = Inr [] \<and>
   get_block_index_arr unit_square_grid 3 = Inr [1] \<and>
   get_inner_bounds_for_idx unit_square_grid 3 = Inr ((1, 1), (3 / 4, 3 / 4))"
proof -
  have h: "0 \<le> contextDist unit_square_grid" "(0::int) \<le> 3" "3 < grid_len unit_square_grid"
    by (simp_all add: unit_square_grid_def grid_len_def)
  have ib: "get_inner_bounds_for_idx unit_square_grid 3 = Inr ((1, 1), (3 / 4, 3 / 4))"
    by (simp add: get_inner_bounds_for_idx_def get_bounds_for_idx_def unit_square_grid_def
        col0_def col1_def Let_def)
  have ob: "get_block_index_arr unit_square_grid 3 = Inr [1]"
    by (simp add: get_block_index_arr_def get_bounds_for_idx_def get_box_index_arr_def
        unit_square_grid_def col0_def col1_def Let_def)
  from C9_inner_subset_outer [OF h] ib
  have "get_inner_block_index_arr unit_square_grid 3 = Inr []"
    by auto
  with h ib ob show ?thesis by simp
qed

subsection \<open>Coverage of the cloud by the blocks\<close>

text \<open>
  C2 fails on the code, at a cloud of one point with blocks of 2 by 2 and a context distance
  of 1, a valid configuration: the constructor counts \<open>ceil(0 / 1) = 0\<close> blocks along each axis,
  the grid has length 0, and the union of the outer point sets over its block indices is
  empty, while the full set of point indices is \<open>{0}\<close>.
\<close>

theorem C2_single_point_uncovered:
  "Grid2DPatchDataset_init exact_arith (Some [(0, 0, 0)]) 2 2 1 = Inr single_point_grid \<and>
   grid_len single_point_grid = 0 \<and>
   all_block_points single_point_grid = {} \<and>
   {0..<length (pos single_point_grid)} = {0}"
  using init_single_point_grid all_block_points_single_point_grid
  by (simp add: single_point_grid_def grid_len_def)

subsection \<open>The k-nearest-neighbour query\<close>

lemma five_points_search6:
  "search_knn_vector_3d (kdtree five_points) (0, 0, 0) 6
     = Inr (5, [1, 2, 0, 3, 4], [1, 4, 9, 16, 75])"
  by (simp add: five_points_def truncating_tree_def Let_def dist2_def
      col0_def col1_def col2_def upt_rec [of _ "numeral _"])

text \<open>
  C7, as the specification states it, fails: \<open>knn_query\<close> has no check of \<open>k\<close> against the
  number of points. Over a tree of five points whose search truncates, a query for 6
  neighbours raises nothing and returns the five points.
\<close>

theorem C7_knn_query_counterexample:
  "knn_query five_points (0, 0, 0) 6 = Inr (5, [1, 2, 0, 3, 4], [1, 4, 9, 16, 75])"
  by (simp add: knn_query_def five_points_search6)

text \<open>
  C7 (amended): for every cloud, every centre and every \<open>k\<close>, \<open>knn_query\<close> returns exactly what
  the k-nearest-neighbour search of the cloud's spatial index returns for that centre and \<open>k\<close>,
  the count, the indices and the squared distances unchanged, and raises exactly what that
  search raises; it compares \<open>k\<close> with nothing and orders nothing itself.
\<close>

theorem C7_knn_query_forwards:
  "knn_query self point k = search_knn_vector_3d (kdtree self) point k"
  by (simp add: knn_query_def split: sum.splits prod.splits)

end
